theory Spec2Isabelle
  imports Complex_Main
begin

section \<open>Errors and results\<close>

text \<open>
  The script \<^verbatim>\<open>conversion_exodus_init_to_mpasli_mesh.py\<close> stops either through an
  uncaught Python exception or through \<^verbatim>\<open>sys.exit(message)\<close>. Both are values here.
\<close>

datatype exit_msg =
    UnsupportedMethod
  | UnsupportedVariable
  | WrongMaskScheme
  | WrongExtrapolationScheme
  | SmoothingUnsupported

datatype error = KeyError | IndexError | ValueError | AssertionError | SystemExit exit_msg

text \<open>
  The script reports a condition by \<^verbatim>\<open>sys.exit\<close> with a message (lines 109, 136, 177,
  202, 251 and 291). A Python exception that nothing catches ends the run with a traceback
  of the failing expression; it is a crash, not a report of the script.
\<close>

definition reported :: "error \<Rightarrow> bool" where
  "reported e = (case e of SystemExit msg \<Rightarrow> True | _ \<Rightarrow> False)"

definition rbind :: "error + 'a \<Rightarrow> ('a \<Rightarrow> error + 'b) \<Rightarrow> error + 'b" where
  "rbind r f = (case r of Inl e \<Rightarrow> Inl e | Inr v \<Rightarrow> f v)"

section \<open>Array indexing as numpy does it\<close>

text \<open>
  An integer index \<open>i\<close> into an array of length \<open>n\<close> is valid for \<open>-n \<le> i < n\<close>; a negative
  index counts from the end, anything else raises IndexError.
\<close>

definition norm_index :: "nat \<Rightarrow> int \<Rightarrow> error + nat" where
  "norm_index n i =
     (if 0 \<le> i \<and> i < int n then Inr (nat i)
      else if - int n \<le> i \<and> i < 0 then Inr (nat (i + int n))
      else Inl IndexError)"

fun norm_indices :: "nat \<Rightarrow> int list \<Rightarrow> error + nat list" where
  "norm_indices n [] = Inr []"
| "norm_indices n (i # ids) =
     rbind (norm_index n i) (\<lambda>j. rbind (norm_indices n ids) (\<lambda>js. Inr (j # js)))"

text \<open>\<^verbatim>\<open>a[ids]\<close> with an integer array \<open>ids\<close>.\<close>

definition fancy_get :: "'a list \<Rightarrow> int list \<Rightarrow> error + 'a list" where
  "fancy_get xs ids = rbind (norm_indices (length xs) ids) (\<lambda>js. Inr (map (\<lambda>j. xs ! j) js))"

text \<open>A one-dimensional right-hand side must have the length of the target or length one.\<close>

definition broadcast :: "nat \<Rightarrow> 'a list \<Rightarrow> error + 'a list" where
  "broadcast k vs =
     (if length vs = k then Inr vs
      else case vs of [v] \<Rightarrow> Inr (replicate k v) | _ \<Rightarrow> Inl ValueError)"

fun assign_all :: "'a list \<Rightarrow> (nat \<times> 'a) list \<Rightarrow> 'a list" where
  "assign_all xs [] = xs"
| "assign_all xs ((j, v) # r) = assign_all (xs[j := v]) r"

text \<open>\<^verbatim>\<open>a[ids] = vs\<close>: the assignments happen in order, so the last one to a cell stays.\<close>

definition fancy_set :: "'a list \<Rightarrow> int list \<Rightarrow> 'a list \<Rightarrow> error + 'a list" where
  "fancy_set xs ids vs =
     rbind (norm_indices (length xs) ids) (\<lambda>js.
     rbind (broadcast (length js) vs) (\<lambda>ws.
     Inr (assign_all xs (zip js ws))))"

text \<open>Elementwise arithmetic of two one-dimensional arrays, with numpy's broadcasting.\<close>

definition np_binop :: "(real \<Rightarrow> real \<Rightarrow> real) \<Rightarrow> real list \<Rightarrow> real list \<Rightarrow> error + real list" where
  "np_binop f a b =
     (if length a = length b then Inr (map2 f a b)
      else case a of [u] \<Rightarrow> Inr (map (f u) b)
           | _ \<Rightarrow> (case b of [v] \<Rightarrow> Inr (map (\<lambda>u. f u v) a) | _ \<Rightarrow> Inl ValueError))"

text \<open>Scalar read and write at a non-negative index (\<open>iCell\<close> comes from \<^verbatim>\<open>np.where\<close>).\<close>

definition get_at :: "'a list \<Rightarrow> nat \<Rightarrow> error + 'a" where
  "get_at xs i = (if i < length xs then Inr (xs ! i) else Inl IndexError)"

definition set_at :: "'a list \<Rightarrow> nat \<Rightarrow> 'a \<Rightarrow> error + 'a list" where
  "set_at xs i v = (if i < length xs then Inr (xs[i := v]) else Inl IndexError)"

text \<open>The slice \<^verbatim>\<open>row[:n]\<close>; a negative \<open>n\<close> drops \<open>-n\<close> entries from the end.\<close>

definition py_take :: "int \<Rightarrow> 'a list \<Rightarrow> 'a list" where
  "py_take n xs = (if 0 \<le> n then take (nat n) xs else take (length xs - nat (- n)) xs)"

definition count_nonzero :: "bool list \<Rightarrow> nat" where
  "count_nonzero msk = length (filter (\<lambda>b. b) msk)"

fun np_min :: "real list \<Rightarrow> error + real" where
  "np_min [] = Inl ValueError"
| "np_min [v] = Inr v"
| "np_min (v # w # r) = rbind (np_min (w # r)) (\<lambda>u. Inr (min v u))"

section \<open>Double-precision arithmetic and the Python runtime\<close>

text \<open>
  The numbers of the script are IEEE doubles. A double is a real number, and every
  arithmetic operation returns the exact result rounded to a double; so does a decimal
  literal such as \<^verbatim>\<open>1e-3\<close>. The rounding function \<open>rnd\<close> is a parameter of the model:
  what is proved holds for every rounding, in particular for the one of the machine.
  \<^verbatim>\<open>np.exp\<close> comes from the C library and is a parameter of its own. Comparisons, \<open>abs\<close>
  and \<open>min\<close> are exact. Results outside the range of finite doubles (overflow, nan) are not
  modelled.

  \<open>first_common index_x index_y\<close> stands for \<^verbatim>\<open>list(set(index_x) & set(index_y))[0]\<close> on
  a non-empty intersection: the order in which Python lists a set is the order of its hash
  table, which the script does not control.
\<close>

record platform =
  rnd :: "real \<Rightarrow> real"
  np_exp :: "real \<Rightarrow> real"
  first_common :: "nat list \<Rightarrow> nat list \<Rightarrow> nat"

definition fl_lit :: "platform \<Rightarrow> real \<Rightarrow> real" where
  "fl_lit py c = rnd py c"

definition fl_add :: "platform \<Rightarrow> real \<Rightarrow> real \<Rightarrow> real" where
  "fl_add py a b = rnd py (a + b)"

definition fl_sub :: "platform \<Rightarrow> real \<Rightarrow> real \<Rightarrow> real" where
  "fl_sub py a b = rnd py (a - b)"

definition fl_mul :: "platform \<Rightarrow> real \<Rightarrow> real \<Rightarrow> real" where
  "fl_mul py a b = rnd py (a * b)"

definition fl_div :: "platform \<Rightarrow> real \<Rightarrow> real \<Rightarrow> real" where
  "fl_div py a b = rnd py (a / b)"

definition fl_sqrt :: "platform \<Rightarrow> real \<Rightarrow> real" where
  "fl_sqrt py a = rnd py (sqrt a)"

text \<open>Python's \<^verbatim>\<open>sum\<close>: the entries are added one after the other, starting from 0.\<close>

definition py_sum :: "platform \<Rightarrow> real list \<Rightarrow> real" where
  "py_sum py xs = foldl (fl_add py) 0 xs"

section \<open>Options, target file and mesh\<close>

text \<open>
  \<open>smooth_iter_num\<close> is the option after \<^verbatim>\<open>int(...)\<close>. The target file holds named
  variables; only the time level 0 that the script touches is kept. A variable of shape
  (Time, nCells) is \<open>Flat\<close>, one of shape (Time, nCells, n) is \<open>Layered n\<close> with one row of
  layer values per cell.
\<close>

record options =
  conversion_method :: string
  mask_scheme :: string
  var_name :: string
  extrapolation :: string
  smooth_iter_num :: int

datatype ncvar = Flat "real list" | Layered nat "real list list"

type_synonym dataset = "string \<rightharpoonup> ncvar"

record mesh =
  xCell :: "real list"
  yCell :: "real list"
  cellsOnCell :: "int list list"
  nEdgesOnCell :: "int list"
  nCells :: nat

definition ice_density :: real where "ice_density = 910.0"
definition ocean_density :: real where "ocean_density = 1028.0"

text \<open>A stage that writes to the file fails with the file as it is at that moment.\<close>

type_synonym outcome = "(error \<times> dataset) + dataset"

definition attempt :: "dataset \<Rightarrow> error + 'a \<Rightarrow> ('a \<Rightarrow> outcome) \<Rightarrow> outcome" where
  "attempt ds r f = (case r of Inl e \<Rightarrow> Inl (e, ds) | Inr v \<Rightarrow> f v)"

section \<open>Correspondence between source samples and target cells (lines 118--136)\<close>

text \<open>\<^verbatim>\<open>np.where(abs(x[:]-x_exo_layer[i])/(abs(x[:])+1e-10)<1e-3)\<close>\<close>

definition coord_match :: "platform \<Rightarrow> real list \<Rightarrow> real \<Rightarrow> nat list" where
  "coord_match py x xe =
     filter (\<lambda>j. fl_div py \<bar>fl_sub py (x ! j) xe\<bar> (fl_add py \<bar>x ! j\<bar> (fl_lit py (1 / 10 ^ 10)))
                   < fl_lit py (1 / 10 ^ 3))
            [0..<length x]"

text \<open>
  One sample of the coordinate method. An empty intersection makes
  \<^verbatim>\<open>index_intersect[0]\<close> raise IndexError: the script tests nothing before it and prints
  nothing about it. Otherwise the result is the 1-based id of the cell that the set lists
  first.
  The text file that line 128 saves after the loop is no variable of the target file and
  is left out.
\<close>

definition coord_lookup ::
  "platform \<Rightarrow> real list \<Rightarrow> real list \<Rightarrow> real \<Rightarrow> real \<Rightarrow> error + int" where
  "coord_lookup py x y xe ye =
     (let index_x = coord_match py x xe;
          index_y = coord_match py y ye;
          index_intersect = filter (\<lambda>j. j \<in> set index_y) index_x
      in case index_intersect of
           [] \<Rightarrow> Inl IndexError
         | _ # _ \<Rightarrow> Inr (int (first_common py index_x index_y) + 1))"

fun coord_method ::
  "platform \<Rightarrow> real list \<Rightarrow> real list \<Rightarrow> real list \<Rightarrow> real list \<Rightarrow> error + int list" where
  "coord_method py x y [] y_exo_layer = Inr []"
| "coord_method py x y (xe # xs) [] = Inl IndexError"
| "coord_method py x y (xe # xs) (ye # ys) =
     rbind (coord_lookup py x y xe ye) (\<lambda>c.
     rbind (coord_method py x y xs ys) (\<lambda>cs. Inr (c # cs)))"

text \<open>
  The id method: \<^verbatim>\<open>np.loadtxt\<close> gives the numbers of the file, and \<^verbatim>\<open>usefulCellID[1::]\<close>
  drops the first. A file with a single number loads as a 0-dimensional array, which cannot
  be sliced.
\<close>

definition id_method :: "int list \<Rightarrow> error + int list" where
  "id_method usefulCellID =
     (if length usefulCellID = 1 then Inl IndexError else Inr (drop 1 usefulCellID))"

definition resolve ::
  "platform \<Rightarrow> options \<Rightarrow> int list \<Rightarrow> real list \<Rightarrow> real list \<Rightarrow> real list \<Rightarrow> real list
     \<Rightarrow> error + int list" where
  "resolve py opts id_file x y x_exo_layer y_exo_layer =
     (if conversion_method opts = ''coord'' then coord_method py x y x_exo_layer y_exo_layer
      else if conversion_method opts = ''id'' then id_method id_file
      else Inl (SystemExit UnsupportedMethod))"

section \<open>Writing the source values into the target file (lines 138--179)\<close>

definition nVert_max_of :: "dataset \<Rightarrow> string \<Rightarrow> error + nat" where
  "nVert_max_of ds name =
     (case ds name of None \<Rightarrow> Inl KeyError
      | Some (Flat xs) \<Rightarrow> Inr 1
      | Some (Layered n rows) \<Rightarrow> Inr n)"

text \<open>
  \<^verbatim>\<open>dataset.variables[name][0, ids]\<close> read and written. On a layered variable the
  two-index form addresses whole rows. With a single layer the rows have one entry each
  and the values of a one-dimensional right-hand side go into them, one per row. With
  another number of layers the right-hand side does not have the size of the target, and
  the model reports ValueError. A read of \<open>k\<close> single-entry rows has the shape (k, 1);
  lines 171--173 combine it with arrays of shape (k), which lines up only for \<open>k \<le> 1\<close>:
  otherwise line 173 fails, with the file as line 166 left it, and the model reports that
  as the ValueError of the read.
\<close>

definition read_flat :: "dataset \<Rightarrow> string \<Rightarrow> int list \<Rightarrow> error + real list" where
  "read_flat ds name ids =
     (case ds name of None \<Rightarrow> Inl KeyError
      | Some (Flat xs) \<Rightarrow> fancy_get xs ids
      | Some (Layered n rows) \<Rightarrow>
          if n = 1 \<and> length ids \<le> 1 then fancy_get (concat rows) ids else Inl ValueError)"

definition write_flat :: "dataset \<Rightarrow> string \<Rightarrow> int list \<Rightarrow> real list \<Rightarrow> error + dataset" where
  "write_flat ds name ids vs =
     (case ds name of None \<Rightarrow> Inl KeyError
      | Some (Flat xs) \<Rightarrow> rbind (fancy_set xs ids vs) (\<lambda>xs'. Inr (ds(name \<mapsto> Flat xs')))
      | Some (Layered n rows) \<Rightarrow>
          if n = 1 then
            rbind (fancy_set rows ids (map (\<lambda>v. [v]) vs)) (\<lambda>rows'.
            Inr (ds(name \<mapsto> Layered n rows')))
          else Inl ValueError)"

text \<open>\<^verbatim>\<open>dataset.variables[name][0, ids, nVert] = vs\<close>.\<close>

definition write_layer ::
  "dataset \<Rightarrow> string \<Rightarrow> int list \<Rightarrow> nat \<Rightarrow> real list \<Rightarrow> error + dataset" where
  "write_layer ds name ids nVert vs =
     (case ds name of None \<Rightarrow> Inl KeyError
      | Some (Flat xs) \<Rightarrow> Inl IndexError
      | Some (Layered n rows) \<Rightarrow>
          if nVert < n then
            rbind (norm_indices (length rows) ids) (\<lambda>js.
            rbind (broadcast (length js) vs) (\<lambda>ws.
            Inr (ds(name \<mapsto> Layered n
                  (fold (\<lambda>(j, v) rs. rs[j := (rs ! j)[nVert := v]]) (zip js ws) rows)))))
          else Inl IndexError)"

text \<open>
  Line 176 reads \<^verbatim>\<open>options.var_name in dataset.variables.keys() == False\<close>. Python chains
  the two comparisons: it is \<^verbatim>\<open>(var_name in keys) and (keys == False)\<close>, and a key view
  never equals \<open>False\<close>.
\<close>

definition keys_eq_False :: "dataset \<Rightarrow> bool" where
  "keys_eq_False ds = False"

definition line_176 :: "options \<Rightarrow> dataset \<Rightarrow> bool" where
  "line_176 opts ds = (ds (var_name opts) \<noteq> None \<and> keys_eq_False ds)"

text \<open>
  The body of the loop over \<open>nVert\<close>. \<open>nVert_albany\<close> is computed by the source and never
  used, so it is not part of the model.
\<close>

definition transplant_layer ::
  "platform \<Rightarrow> options \<Rightarrow> int list \<Rightarrow> real list \<Rightarrow> nat \<Rightarrow> nat \<Rightarrow> dataset \<Rightarrow> outcome" where
  "transplant_layer py opts usefulCellID_array data_exo_layer nVert_max nVert ds =
     (let v = var_name opts; idx = map (\<lambda>c. c - 1) usefulCellID_array in
      if v = ''beta'' then
        attempt ds (write_flat ds v idx (map (\<lambda>d. fl_mul py (np_exp py d) 1000) data_exo_layer)) Inr
      else if v = ''thickness'' then
        attempt ds (write_flat ds v idx data_exo_layer) (\<lambda>ds1.
        if ds1 ''bedTopography'' \<noteq> None then
          attempt ds1 (read_flat ds1 v idx) (\<lambda>thicknessOrig.
          attempt ds1 (read_flat ds1 ''bedTopography'' idx) (\<lambda>bedTopographyOrig.
          attempt ds1 (np_binop (fl_add py) thicknessOrig bedTopographyOrig) (\<lambda>surfaceTopographyOrig.
          attempt ds1 (write_flat ds1 v idx data_exo_layer) (\<lambda>ds2.
          attempt ds2 (np_binop (fl_sub py) surfaceTopographyOrig data_exo_layer) (\<lambda>bed.
          attempt ds2 (write_flat ds2 ''bedTopography'' idx bed) Inr)))))
        else Inr ds1)
      else if nVert_max > 1 then
        attempt ds (write_layer ds v idx nVert data_exo_layer) Inr
      else if line_176 opts ds then Inl (SystemExit UnsupportedVariable, ds)
      else attempt ds (write_flat ds v idx data_exo_layer) Inr)"

fun transplant_loop ::
  "platform \<Rightarrow> options \<Rightarrow> int list \<Rightarrow> real list \<Rightarrow> nat \<Rightarrow> nat list \<Rightarrow> dataset \<Rightarrow> outcome" where
  "transplant_loop py opts ids dat nVert_max [] ds = Inr ds"
| "transplant_loop py opts ids dat nVert_max (nVert # rest) ds =
     (case transplant_layer py opts ids dat nVert_max nVert ds of
        Inl e \<Rightarrow> Inl e
      | Inr ds' \<Rightarrow> transplant_loop py opts ids dat nVert_max rest ds')"

text \<open>
  Lines 118--179: resolve the correspondence, find the number of layers, write every
  layer. The inputs are the id file, the target coordinates, and the source layer's
  coordinates and values as lines 95--109 leave them.
\<close>

definition convert ::
  "platform \<Rightarrow> options \<Rightarrow> int list \<Rightarrow> real list \<Rightarrow> real list \<Rightarrow> real list \<Rightarrow> real list
     \<Rightarrow> real list \<Rightarrow> dataset \<Rightarrow> outcome" where
  "convert py opts id_file x y x_exo_layer y_exo_layer data_exo_layer ds =
     attempt ds (resolve py opts id_file x y x_exo_layer y_exo_layer) (\<lambda>usefulCellID_array.
     attempt ds (nVert_max_of ds (var_name opts)) (\<lambda>nVert_max.
     transplant_loop py opts usefulCellID_array data_exo_layer nVert_max [0..<nVert_max] ds))"

section \<open>The mask of active cells (lines 194--202)\<close>

text \<open>\<^verbatim>\<open>keepCellMask[cond] = 1\<close> with a boolean array \<open>cond\<close>, which must have the mask's length.\<close>

definition mask_assign :: "bool list \<Rightarrow> bool list \<Rightarrow> error + bool list" where
  "mask_assign msk cond =
     (if length cond = length msk then Inr (map2 (\<lambda>m c. c \<or> m) msk cond)
      else Inl IndexError)"

text \<open>
  The mask is an int8 array that only ever holds 0 and 1; it is a list of booleans here.
  The file is passed through: these lines write nothing to it.
\<close>

definition build_mask ::
  "platform \<Rightarrow> string \<Rightarrow> nat \<Rightarrow> real list \<Rightarrow> real list \<Rightarrow> dataset
     \<Rightarrow> error + (bool list \<times> dataset)" where
  "build_mask py scheme n thickness bedrock ds =
     (let keepCellMask = replicate n False in
      if scheme = ''grd'' then
        rbind (np_binop (fl_add py)
                 (map (\<lambda>t. fl_div py (fl_mul py t ice_density) ocean_density) thickness)
                 bedrock) (\<lambda>s.
        rbind (mask_assign keepCellMask (map (\<lambda>v. v > 0) s)) (\<lambda>msk. Inr (msk, ds)))
      else if scheme = ''all'' then
        rbind (mask_assign keepCellMask (map (\<lambda>t. t > 0) thickness)) (\<lambda>msk. Inr (msk, ds))
      else Inl (SystemExit WrongMaskScheme))"

section \<open>Extrapolation (lines 215--256)\<close>

text \<open>
  The state of the last two phases: the time-0 values of the processed variable and the
  three masks of lines 194--205.
\<close>

record pstate =
  field :: "real list"
  keepCellMask :: "bool list"
  keepCellMaskNew :: "bool list"
  keepCellMaskOld :: "bool list"

definition searchCells :: "bool list \<Rightarrow> nat list" where
  "searchCells msk = filter (\<lambda>i. \<not> msk ! i) [0..<length msk]"

text \<open>\<^verbatim>\<open>cellsOnCell[iCell, :nEdgesOnCell[iCell]] - 1\<close>\<close>

definition neighborCellId :: "mesh \<Rightarrow> nat \<Rightarrow> error + int list" where
  "neighborCellId m iCell =
     rbind (get_at (nEdgesOnCell m) iCell) (\<lambda>n.
     rbind (get_at (cellsOnCell m) iCell) (\<lambda>row.
     Inr (map (\<lambda>c. c - 1) (py_take n row))))"

text \<open>The ids among \<open>ids\<close> whose mask entry is set: \<^verbatim>\<open>ids[np.nonzero(mask[ids])]\<close>.\<close>

definition active_ids :: "bool list \<Rightarrow> int list \<Rightarrow> error + int list" where
  "active_ids msk ids =
     rbind (fancy_get msk ids) (\<lambda>mask_for_idx.
     Inr (map fst (filter snd (zip ids mask_for_idx))))"

text \<open>\<^verbatim>\<open>np.sqrt((x_i-x_adj)**2+(y_i-y_adj)**2)\<close>; numpy squares by multiplying.\<close>

definition dists :: "platform \<Rightarrow> real \<Rightarrow> real \<Rightarrow> real list \<Rightarrow> real list \<Rightarrow> real list" where
  "dists py x_i y_i x_adj y_adj =
     map2 (\<lambda>xa ya. fl_sqrt py (fl_add py (fl_mul py (fl_sub py x_i xa) (fl_sub py x_i xa))
                                          (fl_mul py (fl_sub py y_i ya) (fl_sub py y_i ya))))
          x_adj y_adj"

text \<open>
  Lines 237--243 and 279--285: distances to, and values of, the chosen neighbours. The
  assertion \<^verbatim>\<open>np.count_nonzero(ds)==len(ds)\<close> fails when a distance is zero. The
  earlier assertion \<^verbatim>\<open>len(nonzero_id) == nonzero_num\<close> compares two counts of the same
  entries and cannot fail, so it is no branch of the model.
\<close>

definition adjacent_data ::
  "platform \<Rightarrow> mesh \<Rightarrow> real list \<Rightarrow> nat \<Rightarrow> int list \<Rightarrow> error + (real list \<times> real list)" where
  "adjacent_data py m fld iCell nonzero_id =
     rbind (get_at (xCell m) iCell) (\<lambda>x_i.
     rbind (get_at (yCell m) iCell) (\<lambda>y_i.
     rbind (fancy_get (xCell m) nonzero_id) (\<lambda>x_adj.
     rbind (fancy_get (yCell m) nonzero_id) (\<lambda>y_adj.
     (let ds = dists py x_i y_i x_adj y_adj in
      if list_ex (\<lambda>d. d = 0) ds then Inl AssertionError
      else rbind (fancy_get fld nonzero_id) (\<lambda>var_adj. Inr (ds, var_adj)))))))"

text \<open>\<^verbatim>\<open>1.0/sum(1.0/ds)*sum(1.0/ds*var_adj)\<close>\<close>

definition idw :: "platform \<Rightarrow> real list \<Rightarrow> real list \<Rightarrow> real" where
  "idw py ds var_adj =
     fl_mul py (fl_div py 1 (py_sum py (map (\<lambda>d. fl_div py 1 d) ds)))
               (py_sum py (map2 (\<lambda>d v. fl_mul py (fl_div py 1 d) v) ds var_adj))"

text \<open>
  What one inactive cell receives in a pass, from the mask \<open>frozen\<close> and the values \<open>fld\<close>:
  \<open>None\<close> when it has no active neighbour.
\<close>

definition extrap_value ::
  "platform \<Rightarrow> options \<Rightarrow> mesh \<Rightarrow> bool list \<Rightarrow> real list \<Rightarrow> nat \<Rightarrow> error + real option" where
  "extrap_value py opts m frozen fld iCell =
     rbind (neighborCellId m iCell) (\<lambda>nb.
     rbind (active_ids frozen nb) (\<lambda>nonzero_id.
     if length nonzero_id > 0 then
       rbind (adjacent_data py m fld iCell nonzero_id) (\<lambda>(ds, var_adj).
       if extrapolation opts = ''idw'' then Inr (Some (idw py ds var_adj))
       else if extrapolation opts = ''min'' then rbind (np_min var_adj) (\<lambda>v. Inr (Some v))
       else Inl (SystemExit WrongExtrapolationScheme))
     else Inr None))"

definition extrap_cell ::
  "platform \<Rightarrow> options \<Rightarrow> mesh \<Rightarrow> pstate \<Rightarrow> nat \<Rightarrow> error + pstate" where
  "extrap_cell py opts m st iCell =
     rbind (extrap_value py opts m (keepCellMask st) (field st) iCell) (\<lambda>r.
     case r of None \<Rightarrow> Inr st
     | Some v \<Rightarrow>
         rbind (set_at (field st) iCell v) (\<lambda>f'.
         rbind (set_at (keepCellMaskNew st) iCell True) (\<lambda>mn.
         Inr (st\<lparr>field := f', keepCellMaskNew := mn\<rparr>))))"

fun extrap_cells ::
  "platform \<Rightarrow> options \<Rightarrow> mesh \<Rightarrow> nat list \<Rightarrow> pstate \<Rightarrow> error + pstate" where
  "extrap_cells py opts m [] st = Inr st"
| "extrap_cells py opts m (iCell # rest) st =
     rbind (extrap_cell py opts m st iCell) (extrap_cells py opts m rest)"

text \<open>One pass: the body of the while loop, lines 221--253.\<close>

definition extrap_pass :: "platform \<Rightarrow> options \<Rightarrow> mesh \<Rightarrow> pstate \<Rightarrow> error + pstate" where
  "extrap_pass py opts m st =
     (let st1 = st\<lparr>keepCellMask := keepCellMaskNew st\<rparr>
      in extrap_cells py opts m (searchCells (keepCellMask st1)) st1)"

text \<open>The while loop of line 219. \<open>None\<close> is a loop that never ends.\<close>

partial_function (option) extrap_loop ::
  "platform \<Rightarrow> options \<Rightarrow> mesh \<Rightarrow> pstate \<Rightarrow> (error + pstate) option" where
  "extrap_loop py opts m st =
     (if count_nonzero (keepCellMask st) \<noteq> nCells m then
        (case extrap_pass py opts m st of
           Inl e \<Rightarrow> Some (Inl e)
         | Inr st' \<Rightarrow> extrap_loop py opts m st')
      else Some (Inr st))"

text \<open>Lines 215--256.\<close>

definition extrapolate ::
  "platform \<Rightarrow> options \<Rightarrow> mesh \<Rightarrow> pstate \<Rightarrow> (error + pstate) option" where
  "extrapolate py opts m st =
     (if var_name opts = ''thickness'' then Some (Inr st) else extrap_loop py opts m st)"

section \<open>Smoothing (lines 260--296)\<close>

text \<open>\<^verbatim>\<open>neighborCellId[np.nonzero(neighborCellId+1)]\<close>\<close>

definition cell_nonzero_id :: "int list \<Rightarrow> int list" where
  "cell_nonzero_id nb = filter (\<lambda>c. c + 1 \<noteq> 0) nb"

definition smooth_cell ::
  "platform \<Rightarrow> options \<Rightarrow> mesh \<Rightarrow> pstate \<Rightarrow> nat \<Rightarrow> error + pstate" where
  "smooth_cell py opts m st iCell =
     rbind (neighborCellId m iCell) (\<lambda>nb.
     rbind (active_ids (keepCellMask st) (cell_nonzero_id nb)) (\<lambda>nonzero_id.
     if \<not> length nonzero_id > 0 then Inl AssertionError
     else
       rbind (adjacent_data py m (field st) iCell nonzero_id) (\<lambda>(ds, var_adj).
       rbind (if var_name opts = ''beta'' then np_min var_adj
              else if var_name opts = ''stiffnessFactor'' then Inr (idw py ds var_adj)
              else Inl (SystemExit SmoothingUnsupported)) (\<lambda>var_interp.
       rbind (set_at (field st) iCell var_interp) (\<lambda>f'. Inr (st\<lparr>field := f'\<rparr>))))))"

fun smooth_cells ::
  "platform \<Rightarrow> options \<Rightarrow> mesh \<Rightarrow> nat list \<Rightarrow> pstate \<Rightarrow> error + pstate" where
  "smooth_cells py opts m [] st = Inr st"
| "smooth_cells py opts m (iCell # rest) st =
     rbind (smooth_cell py opts m st iCell) (smooth_cells py opts m rest)"

definition smooth_pass :: "platform \<Rightarrow> options \<Rightarrow> mesh \<Rightarrow> pstate \<Rightarrow> error + pstate" where
  "smooth_pass py opts m st = smooth_cells py opts m (searchCells (keepCellMaskOld st)) st"

function smooth_loop ::
  "platform \<Rightarrow> options \<Rightarrow> mesh \<Rightarrow> int \<Rightarrow> pstate \<Rightarrow> error + pstate" where
  "smooth_loop py opts m iter_num st =
     (if iter_num < smooth_iter_num opts then
        (case smooth_pass py opts m st of
           Inl e \<Rightarrow> Inl e
         | Inr st' \<Rightarrow> smooth_loop py opts m (iter_num + 1) st')
      else Inr st)"
  by pat_completeness auto
termination
  by (relation "measure (\<lambda>(py, opts, m, iter_num, st). nat (smooth_iter_num opts - iter_num))")
     auto

definition smoothing :: "platform \<Rightarrow> options \<Rightarrow> mesh \<Rightarrow> pstate \<Rightarrow> error + pstate" where
  "smoothing py opts m st = smooth_loop py opts m 0 st"

section \<open>Example inputs\<close>

text \<open>
  A platform that does not round and lists a set in ascending order. The examples use
  small whole numbers, on which the arithmetic of doubles is exact too, or values far from
  the tolerance of line 122, and intersections of at most one cell: there the machine
  gives what this platform gives.
\<close>

definition py_exact :: platform where
  "py_exact = \<lparr>rnd = (\<lambda>r. r), np_exp = exp,
               first_common = (\<lambda>index_x index_y. hd (filter (\<lambda>j. j \<in> set index_y) index_x))\<rparr>"

definition opts0 :: options where
  "opts0 = \<lparr>conversion_method = ''id'', mask_scheme = ''grd'', var_name = ''stiffnessFactor'',
             extrapolation = ''min'', smooth_iter_num = 0\<rparr>"

definition ds_stiff :: dataset where
  "ds_stiff = [''stiffnessFactor'' \<mapsto> Flat [0, 0, 0]]"

definition ds_thk :: dataset where
  "ds_thk = [''thickness'' \<mapsto> Flat [100, 200], ''bedTopography'' \<mapsto> Flat [50, -20]]"

text \<open>
  Three cells: cell 0 and cell 1 are neighbours, cell 2 has no neighbour at all. Cell 0
  starts active. \<open>st3a\<close> and \<open>st3b\<close> are the states after the first and the second pass.
\<close>

definition mesh3 :: mesh where
  "mesh3 = \<lparr>xCell = [0, 1, 5], yCell = [0, 0, 0],
             cellsOnCell = [ [2, 0], [1, 0], [0, 0] ], nEdgesOnCell = [1, 1, 0], nCells = 3\<rparr>"

definition st3 :: pstate where
  "st3 = \<lparr>field = [10, 0, 0], keepCellMask = [True, False, False],
           keepCellMaskNew = [True, False, False], keepCellMaskOld = [True, False, False]\<rparr>"

definition st3a :: pstate where
  "st3a = \<lparr>field = [10, 10, 0], keepCellMask = [True, False, False],
           keepCellMaskNew = [True, True, False], keepCellMaskOld = [True, False, False]\<rparr>"

definition st3b :: pstate where
  "st3b = \<lparr>field = [10, 10, 0], keepCellMask = [True, True, False],
           keepCellMaskNew = [True, True, False], keepCellMaskOld = [True, False, False]\<rparr>"







section \<open>Indexing\<close>

lemma norm_index_bound: "norm_index n i = Inr j \<Longrightarrow> j < n"
  by (auto simp: norm_index_def split: if_splits)

lemma norm_indices_all2:
  "norm_indices n ids = Inr js \<longleftrightarrow> list_all2 (\<lambda>i j. norm_index n i = Inr j) ids js"
proof (induction ids arbitrary: js)
  case Nil
  show ?case by auto
next
  case (Cons i ids)
  show ?case
    by (cases js) (auto simp: rbind_def Cons.IH[symmetric] split: sum.splits)
qed

lemma fancy_get_agree:
  assumes "length fld' = length fld"
    and "\<forall>c\<in>set ids. \<forall>j. norm_index (length fld) c = Inr j \<longrightarrow> fld' ! j = fld ! j"
  shows "fancy_get fld' ids = fancy_get fld ids"
proof (cases "norm_indices (length fld) ids")
  case (Inl e)
  with assms(1) show ?thesis by (simp add: fancy_get_def rbind_def)
next
  case (Inr js)
  then have all2: "list_all2 (\<lambda>i j. norm_index (length fld) i = Inr j) ids js"
    by (simp add: norm_indices_all2)
  have "map (\<lambda>j. fld' ! j) js = map (\<lambda>j. fld ! j) js"
  proof (rule nth_equalityI)
    show "length (map (\<lambda>j. fld' ! j) js) = length (map (\<lambda>j. fld ! j) js)" by simp
  next
    fix k assume "k < length (map (\<lambda>j. fld' ! j) js)"
    then have k: "k < length js" by simp
    with all2 have "ids ! k \<in> set ids" "norm_index (length fld) (ids ! k) = Inr (js ! k)"
      by (auto simp: list_all2_conv_all_nth)
    with assms(2) have "fld' ! (js ! k) = fld ! (js ! k)" by blast
    with k show "map (\<lambda>j. fld' ! j) js ! k = map (\<lambda>j. fld ! j) js ! k" by simp
  qed
  with Inr assms(1) show ?thesis by (simp add: fancy_get_def rbind_def)
qed

section \<open>Correspondence\<close>

lemma coord_method_fails:
  "i < length xe \<Longrightarrow> i < length ye \<Longrightarrow> coord_lookup py x y (xe ! i) (ye ! i) = Inl IndexError
     \<Longrightarrow> coord_method py x y xe ye = Inl IndexError"
proof (induction py x y xe ye arbitrary: i rule: coord_method.induct)
  case (3 py x y xe xs ye ys)
  show ?case
  proof (cases i)
    case 0
    with 3 show ?thesis by (simp add: rbind_def)
  next
    case (Suc k)
    with 3 have "coord_method py x y xs ys = Inl IndexError" by auto
    then show ?thesis
      by (auto simp: rbind_def coord_lookup_def Let_def split: sum.splits list.splits)
  qed
qed simp_all

lemmas fl_exact = fl_lit_def fl_add_def fl_sub_def fl_mul_def fl_div_def fl_sqrt_def py_sum_def
  py_exact_def

lemma coord_match_hit: "coord_match py_exact [0, 1000, 2000] 1000 = [1]"
  by (simp add: coord_match_def fl_exact upt_rec)

lemma coord_match_miss: "coord_match py_exact [0, 1000, 2000] 5000 = []"
  by (simp add: coord_match_def fl_exact upt_rec)

text \<open>
  C6, as the code has it. In the coordinate method, a source sample whose x-candidates and
  y-candidates have no target cell in common ends the run with the IndexError of
  \<^verbatim>\<open>index_intersect[0]\<close>, which nothing catches: the script reports no inconsistency of
  the correspondence. The target file is then what it was before: nothing has been
  written.
\<close>

theorem coord_no_match_crashes_before_write:
  assumes "conversion_method opts = ''coord''"
    and "i < length x_exo_layer" and "i < length y_exo_layer"
    and "set (coord_match py x (x_exo_layer ! i)) \<inter> set (coord_match py y (y_exo_layer ! i)) = {}"
  shows "convert py opts id_file x y x_exo_layer y_exo_layer data_exo_layer ds
           = Inl (IndexError, ds)
       \<and> \<not> reported IndexError"
proof -
  have "filter (\<lambda>j. j \<in> set (coord_match py y (y_exo_layer ! i)))
          (coord_match py x (x_exo_layer ! i)) = []"
    using assms(4) by (auto simp: filter_empty_conv)
  then have "coord_lookup py x y (x_exo_layer ! i) (y_exo_layer ! i) = Inl IndexError"
    by (simp add: coord_lookup_def)
  then have "coord_method py x y x_exo_layer y_exo_layer = Inl IndexError"
    using assms(2,3) by (rule coord_method_fails[rotated 2])
  then show ?thesis
    using assms(1) by (simp add: convert_def resolve_def attempt_def reported_def)
qed

theorem coord_no_match_crashes_before_write_witness:
  "conversion_method (opts0\<lparr>conversion_method := ''coord''\<rparr>) = ''coord''
   \<and> (0::nat) < length [5000 :: real] \<and> (0::nat) < length [0 :: real]
   \<and> set (coord_match py_exact [0, 1000, 2000] ([5000] ! 0))
       \<inter> set (coord_match py_exact [0, 0, 0] ([0] ! 0)) = {}
   \<and> convert py_exact (opts0\<lparr>conversion_method := ''coord''\<rparr>) [] [0, 1000, 2000] [0, 0, 0]
        [5000] [0] [7] ds_thk = Inl (IndexError, ds_thk)
   \<and> \<not> reported IndexError"
  using coord_no_match_crashes_before_write
    [of "opts0\<lparr>conversion_method := ''coord''\<rparr>" 0 "[5000]" "[0]" py_exact "[0, 1000, 2000]"
        "[0, 0, 0]" "[]" "[7]" ds_thk]
  by (simp add: coord_match_miss reported_def)

text \<open>
  C6, as stated, fails. The second of two samples matches no cell. The run ends with the
  bare IndexError and the file untouched; a run of the id method on a file that holds a
  single number ends in the very same way. No inconsistency of the correspondence is
  reported.
\<close>

theorem coord_no_match_report_counterexample:
  "convert py_exact (opts0\<lparr>conversion_method := ''coord''\<rparr>) [] [0, 1000, 2000] [0, 0, 0]
        [1000, 5000] [0, 0] [7, 8] ds_stiff = Inl (IndexError, ds_stiff)
   \<and> \<not> reported IndexError
   \<and> convert py_exact opts0 [5] [0, 1000, 2000] [0, 0, 0] [1000, 5000] [0, 0] [7, 8] ds_stiff
        = Inl (IndexError, ds_stiff)"
proof -
  have y0: "coord_match py_exact [0, 0, 0] 0 = [0, 1, 2]"
    by (simp add: coord_match_def fl_exact upt_rec)
  have first: "coord_lookup py_exact [0, 1000, 2000] [0, 0, 0] 1000 0 = Inr 2"
    by (simp add: coord_lookup_def coord_match_hit y0) (simp add: py_exact_def)
  have second: "coord_lookup py_exact [0, 1000, 2000] [0, 0, 0] 5000 0 = Inl IndexError"
    by (simp add: coord_lookup_def coord_match_miss)
  show ?thesis
    by (simp add: convert_def resolve_def id_method_def rbind_def attempt_def first second
        opts0_def reported_def)
qed

text \<open>
  C3, as the code has it. In the id method the first stored value is dropped without
  being compared with anything: whatever count \<open>c\<close> the file declares and however many
  source samples there are, the remaining values are the correspondence.
\<close>

theorem id_method_skips_declared_count:
  "resolve py (opts\<lparr>conversion_method := ''id''\<rparr>) (c # e # es) x y x_exo_layer y_exo_layer
     = Inr (e # es)"
  by (simp add: resolve_def id_method_def)

text \<open>
  C3, as stated, fails: the file declares 99 entries, there are two source samples, and
  the run writes both values without reporting anything.
\<close>

theorem id_method_count_counterexample:
  "(99::int) \<noteq> int (length [0, 0 :: real])
   \<and> resolve py_exact opts0 [99, 1, 3] [] [] [0, 0] [0, 0] = Inr [1, 3]
   \<and> convert py_exact opts0 [99, 1, 3] [] [] [0, 0] [0, 0] [7, 8] ds_stiff
       = Inr (ds_stiff(''stiffnessFactor'' \<mapsto> Flat [7, 0, 8]))"
  by (simp add: convert_def resolve_def id_method_def opts0_def ds_stiff_def attempt_def
      nVert_max_of_def transplant_layer_def line_176_def keys_eq_False_def write_flat_def
      fancy_set_def norm_index_def rbind_def broadcast_def)

section \<open>Writing the values\<close>

text \<open>
  C1 at a concrete input. Two cells with thickness 100 and 200 over bedrock 50 and -20
  receive the thicknesses 30 and 250. Keeping thickness + bedrock would need the bedrock
  120 and -70; the script leaves it at 50 and -20, because line 166 has overwritten the
  thickness before line 169 copies the "original". The sums and differences are whole
  numbers, which doubles hold exactly.
\<close>

theorem thickness_write_keeps_bedrock:
  "transplant_layer py_exact (opts0\<lparr>var_name := ''thickness''\<rparr>) [1, 2] [30, 250] 1 0 ds_thk
     = Inr (ds_thk(''thickness'' \<mapsto> Flat [30, 250], ''bedTopography'' \<mapsto> Flat [50, -20]))
   \<and> [(100 + 50) - 30, (200 + (-20)) - 250] = [120, -70 :: real]"
  by (simp add: transplant_layer_def opts0_def ds_thk_def attempt_def write_flat_def read_flat_def
      fancy_set_def fancy_get_def norm_index_def rbind_def broadcast_def np_binop_def fl_exact)

text \<open>
  C5 at a concrete input. The file has no variable \<open>surfaceTemperature\<close>. The run stops
  with the KeyError of line 139, and the loop body alone stops with the KeyError of line
  179: the exit of line 177 is not what reports the missing variable.
\<close>

theorem missing_variable_is_key_error:
  "convert py (opts0\<lparr>var_name := ''surfaceTemperature''\<rparr>) [1, 1] [] [] [0] [0] [5] ds_stiff
     = Inl (KeyError, ds_stiff)
   \<and> transplant_layer py (opts0\<lparr>var_name := ''surfaceTemperature''\<rparr>) [1] [5] 1 0 ds_stiff
     = Inl (KeyError, ds_stiff)"
  by (simp add: convert_def resolve_def id_method_def opts0_def ds_stiff_def attempt_def
      nVert_max_of_def transplant_layer_def line_176_def keys_eq_False_def write_flat_def)

section \<open>The mask\<close>

text \<open>
  C7. For thickness and bedrock arrays over the \<open>n\<close> target cells, the mask builder sets
  the bit of a cell under \<open>grd\<close> iff thickness * 910.0 / 1028.0 + bedrock > 0, the left side
  as the machine computes it (each of the three operations rounded), and under \<open>all\<close> iff
  thickness > 0; any other selector ends the run with the masking-scheme message; the file
  comes back as it went in.
\<close>

theorem build_mask_spec:
  assumes "length thickness = n" and "length bedrock = n"
  shows "(\<exists>msk. build_mask py ''grd'' n thickness bedrock ds = Inr (msk, ds) \<and> length msk = n
            \<and> (\<forall>i<n. msk ! i \<longleftrightarrow>
                 fl_add py (fl_div py (fl_mul py (thickness ! i) 910.0) 1028.0) (bedrock ! i) > 0))
       \<and> (\<exists>msk. build_mask py ''all'' n thickness bedrock ds = Inr (msk, ds) \<and> length msk = n
            \<and> (\<forall>i<n. msk ! i \<longleftrightarrow> thickness ! i > 0))
       \<and> (scheme \<noteq> ''grd'' \<and> scheme \<noteq> ''all''
            \<longrightarrow> build_mask py scheme n thickness bedrock ds = Inl (SystemExit WrongMaskScheme))"
  using assms
  by (simp add: build_mask_def np_binop_def mask_assign_def rbind_def ice_density_def
      ocean_density_def)

theorem build_mask_spec_witness:
  "length [1028, 1028, 0 :: real] = 3 \<and> length [-900, -920, -10 :: real] = 3
   \<and> build_mask py_exact ''grd'' 3 [1028, 1028, 0] [-900, -920, -10] ds_thk
       = Inr ([True, False, False], ds_thk)
   \<and> build_mask py_exact ''all'' 3 [1028, 1028, 0] [-900, -920, -10] ds_thk
       = Inr ([True, True, False], ds_thk)
   \<and> build_mask py_exact ''ice'' 3 [1028, 1028, 0] [-900, -920, -10] ds_thk
       = Inl (SystemExit WrongMaskScheme)"
  using build_mask_spec [of "[1028, 1028, 0]" 3 "[-900, -920, -10]" py_exact ds_thk "''ice''"]
  by (simp add: build_mask_def np_binop_def mask_assign_def rbind_def ice_density_def
      ocean_density_def eval_nat_numeral fl_exact)

section \<open>Extrapolation\<close>

subsection \<open>What a pass reads\<close>

lemma active_ids_sound:
  assumes "active_ids frozen nb = Inr ids" and "c \<in> set ids"
  shows "\<exists>j. norm_index (length frozen) c = Inr j \<and> frozen ! j"
proof -
  from assms(1) obtain js where js: "norm_indices (length frozen) nb = Inr js"
    and ids: "ids = map fst (filter snd (zip nb (map (\<lambda>j. frozen ! j) js)))"
    by (auto simp: active_ids_def fancy_get_def rbind_def split: sum.splits)
  from js have all2: "list_all2 (\<lambda>i j. norm_index (length frozen) i = Inr j) nb js"
    by (simp add: norm_indices_all2)
  from assms(2) ids obtain b where "(c, b) \<in> set (zip nb (map (\<lambda>j. frozen ! j) js))" and b
    by auto
  then obtain k where k: "k < length nb" "k < length js" "nb ! k = c" "frozen ! (js ! k)"
    by (auto simp: in_set_zip)
  with all2 have "norm_index (length frozen) c = Inr (js ! k)"
    by (auto simp: list_all2_conv_all_nth)
  with k show ?thesis by blast
qed


lemma extrap_value_agree:
  assumes "length fld = length frozen" and "length fld' = length frozen"
    and "\<forall>j<length frozen. frozen ! j \<longrightarrow> fld' ! j = fld ! j"
  shows "extrap_value py opts m frozen fld' i = extrap_value py opts m frozen fld i"
proof (cases "neighborCellId m i")
  case (Inl e)
  then show ?thesis by (simp add: extrap_value_def rbind_def)
next
  case nb: (Inr nb)
  show ?thesis
  proof (cases "active_ids frozen nb")
    case (Inl e)
    with nb show ?thesis by (simp add: extrap_value_def rbind_def)
  next
    case (Inr ids)
    have "\<forall>c\<in>set ids. \<forall>j. norm_index (length fld) c = Inr j \<longrightarrow> fld' ! j = fld ! j"
    proof (intro ballI allI impI)
      fix c j assume c: "c \<in> set ids" and j: "norm_index (length fld) c = Inr j"
      from active_ids_sound[OF Inr c] obtain j' where
        "norm_index (length frozen) c = Inr j'" "frozen ! j'" by blast
      with j assms(1) have "j' = j" "frozen ! j" by auto
      moreover from j assms(1) have "j < length frozen" by (auto dest: norm_index_bound)
      ultimately show "fld' ! j = fld ! j" using assms(3) by blast
    qed
    with assms(1,2) have "fancy_get fld' ids = fancy_get fld ids"
      by (intro fancy_get_agree) auto
    then have "adjacent_data py m fld' i ids = adjacent_data py m fld i ids"
      by (simp add: adjacent_data_def cong: if_cong)
    with nb Inr show ?thesis by (simp add: extrap_value_def rbind_def)
  qed
qed

lemma extrap_cell_result:
  assumes "extrap_cell py opts m s i = Inr s1"
  shows "(extrap_value py opts m (keepCellMask s) (field s) i = Inr None \<and> s1 = s)
       \<or> (\<exists>v. extrap_value py opts m (keepCellMask s) (field s) i = Inr (Some v)
              \<and> i < length (field s) \<and> i < length (keepCellMaskNew s)
              \<and> s1 = s\<lparr>field := (field s)[i := v], keepCellMaskNew := (keepCellMaskNew s)[i := True]\<rparr>)"
  using assms
  by (auto simp: extrap_cell_def rbind_def set_at_def split: sum.splits option.splits if_splits)

lemma extrap_cells_snapshot:
  assumes "extrap_cells py opts m cells s = Inr s'"
    and "distinct cells" and "\<forall>i\<in>set cells. i < length frozen \<and> \<not> frozen ! i"
    and "keepCellMask s = frozen" and "length (field s) = length frozen"
    and "length (keepCellMaskNew s) = length frozen"
  shows "keepCellMask s' = frozen \<and> keepCellMaskOld s' = keepCellMaskOld s
       \<and> length (field s') = length frozen \<and> length (keepCellMaskNew s') = length frozen
       \<and> (\<forall>i<length frozen. i \<notin> set cells \<longrightarrow>
             field s' ! i = field s ! i \<and> keepCellMaskNew s' ! i = keepCellMaskNew s ! i)
       \<and> (\<forall>i\<in>set cells.
             case extrap_value py opts m frozen (field s) i of
               Inl e \<Rightarrow> False
             | Inr None \<Rightarrow> field s' ! i = field s ! i \<and> keepCellMaskNew s' ! i = keepCellMaskNew s ! i
             | Inr (Some v) \<Rightarrow> field s' ! i = v \<and> keepCellMaskNew s' ! i)"
  using assms
proof (induction cells arbitrary: s)
  case Nil
  then show ?case by simp
next
  case (Cons i rest)
  from Cons.prems(1) obtain s1 where s1: "extrap_cell py opts m s i = Inr s1"
    and rest: "extrap_cells py opts m rest s1 = Inr s'"
    by (auto simp: rbind_def split: sum.splits)
  have i: "i < length frozen" "\<not> frozen ! i" "i \<notin> set rest" and d: "distinct rest"
    and r: "\<forall>j\<in>set rest. j < length frozen \<and> \<not> frozen ! j"
    using Cons.prems(2,3) by auto
  from extrap_cell_result[OF s1] Cons.prems(4)
  have alt: "(extrap_value py opts m frozen (field s) i = Inr None \<and> s1 = s)
       \<or> (\<exists>v. extrap_value py opts m frozen (field s) i = Inr (Some v)
              \<and> s1 = s\<lparr>field := (field s)[i := v], keepCellMaskNew := (keepCellMaskNew s)[i := True]\<rparr>)"
    by auto
  have s1_props: "keepCellMask s1 = frozen" "keepCellMaskOld s1 = keepCellMaskOld s"
    "length (field s1) = length frozen" "length (keepCellMaskNew s1) = length frozen"
    "\<forall>j<length frozen. j \<noteq> i \<longrightarrow>
        field s1 ! j = field s ! j \<and> keepCellMaskNew s1 ! j = keepCellMaskNew s ! j"
    "case extrap_value py opts m frozen (field s) i of
               Inl e \<Rightarrow> False
             | Inr None \<Rightarrow> field s1 ! i = field s ! i \<and> keepCellMaskNew s1 ! i = keepCellMaskNew s ! i
             | Inr (Some v) \<Rightarrow> field s1 ! i = v \<and> keepCellMaskNew s1 ! i"
    using alt Cons.prems(4,5,6) i(1) by auto
  have agree: "\<forall>j<length frozen. frozen ! j \<longrightarrow> field s1 ! j = field s ! j"
    using s1_props(5) i(2) by auto
  have same: "extrap_value py opts m frozen (field s1) j = extrap_value py opts m frozen (field s) j" for j
    using Cons.prems(5) s1_props(3) agree by (intro extrap_value_agree) auto
  note IH = Cons.IH[OF rest d r s1_props(1,3,4), unfolded same]
  show ?case
  proof (intro conjI allI impI ballI)
    show "keepCellMask s' = frozen" using IH by simp
    show "keepCellMaskOld s' = keepCellMaskOld s" using IH s1_props(2) by simp
    show "length (field s') = length frozen" using IH by simp
    show "length (keepCellMaskNew s') = length frozen" using IH by simp
  next
    fix j assume "j < length frozen" "j \<notin> set (i # rest)"
    then show "field s' ! j = field s ! j" "keepCellMaskNew s' ! j = keepCellMaskNew s ! j"
      using IH s1_props(5) by auto
  next
    fix j assume j: "j \<in> set (i # rest)"
    show "case extrap_value py opts m frozen (field s) j of
               Inl e \<Rightarrow> False
             | Inr None \<Rightarrow> field s' ! j = field s ! j \<and> keepCellMaskNew s' ! j = keepCellMaskNew s ! j
             | Inr (Some v) \<Rightarrow> field s' ! j = v \<and> keepCellMaskNew s' ! j"
    proof (cases "j = i")
      case True
      have "field s' ! i = field s1 ! i" "keepCellMaskNew s' ! i = keepCellMaskNew s1 ! i"
        using IH i(1,3) by auto
      with s1_props(6) True show ?thesis by (auto split: sum.splits option.splits)
    next
      case False
      with j have jr: "j \<in> set rest" by simp
      with r have "j < length frozen" by simp
      with False s1_props(5) have "field s1 ! j = field s ! j"
        "keepCellMaskNew s1 ! j = keepCellMaskNew s ! j" by auto
      moreover from IH jr have "case extrap_value py opts m frozen (field s) j of
               Inl e \<Rightarrow> False
             | Inr None \<Rightarrow> field s' ! j = field s1 ! j \<and> keepCellMaskNew s' ! j = keepCellMaskNew s1 ! j
             | Inr (Some v) \<Rightarrow> field s' ! j = v \<and> keepCellMaskNew s' ! j" by blast
      ultimately show ?thesis by (auto split: sum.splits option.splits)
    qed
  qed
qed

lemma searchCells_props:
  "distinct (searchCells frozen)"
  "i \<in> set (searchCells frozen) \<longleftrightarrow> i < length frozen \<and> \<not> frozen ! i"
  by (auto simp: searchCells_def)

lemma extrap_pass_snapshot:
  assumes "extrap_pass py opts m st = Inr st'"
    and "length (field st) = length (keepCellMaskNew st)"
  shows "keepCellMask st' = keepCellMaskNew st \<and> keepCellMaskOld st' = keepCellMaskOld st
       \<and> length (field st') = length (field st)
       \<and> length (keepCellMaskNew st') = length (keepCellMaskNew st)
       \<and> (\<forall>i<length (keepCellMaskNew st).
            if keepCellMaskNew st ! i then field st' ! i = field st ! i \<and> keepCellMaskNew st' ! i
            else (case extrap_value py opts m (keepCellMaskNew st) (field st) i of
                    Inl e \<Rightarrow> False
                  | Inr None \<Rightarrow> field st' ! i = field st ! i \<and> \<not> keepCellMaskNew st' ! i
                  | Inr (Some v) \<Rightarrow> field st' ! i = v \<and> keepCellMaskNew st' ! i))"
proof -
  let ?frozen = "keepCellMaskNew st"
  let ?s = "st\<lparr>keepCellMask := ?frozen\<rparr>"
  have run: "extrap_cells py opts m (searchCells ?frozen) ?s = Inr st'"
    using assms(1) by (simp add: extrap_pass_def Let_def)
  have pre: "\<forall>i\<in>set (searchCells ?frozen). i < length ?frozen \<and> \<not> ?frozen ! i"
    by (simp add: searchCells_props)
  have fs: "keepCellMask ?s = ?frozen" "field ?s = field st" "keepCellMaskNew ?s = ?frozen"
    "keepCellMaskOld ?s = keepCellMaskOld st" by simp_all
  note snap = extrap_cells_snapshot[OF run searchCells_props(1) pre, unfolded fs, OF refl assms(2) refl]
  show ?thesis
  proof (intro conjI allI impI)
    fix i assume i: "i < length ?frozen"
    show "if ?frozen ! i then field st' ! i = field st ! i \<and> keepCellMaskNew st' ! i
          else (case extrap_value py opts m ?frozen (field st) i of
                    Inl e \<Rightarrow> False
                  | Inr None \<Rightarrow> field st' ! i = field st ! i \<and> \<not> keepCellMaskNew st' ! i
                  | Inr (Some v) \<Rightarrow> field st' ! i = v \<and> keepCellMaskNew st' ! i)"
    proof (cases "?frozen ! i")
      case True
      with i have "i \<notin> set (searchCells ?frozen)" by (simp add: searchCells_props)
      with snap i True show ?thesis by auto
    next
      case False
      with i have "i \<in> set (searchCells ?frozen)" by (simp add: searchCells_props)
      with snap have "case extrap_value py opts m ?frozen (field st) i of
               Inl e \<Rightarrow> False
             | Inr None \<Rightarrow> field st' ! i = field st ! i \<and> keepCellMaskNew st' ! i = ?frozen ! i
             | Inr (Some v) \<Rightarrow> field st' ! i = v \<and> keepCellMaskNew st' ! i" by blast
      with False show ?thesis by (auto split: sum.splits option.splits)
    qed
  qed (use snap assms(2) in auto)
qed

subsection \<open>The example passes\<close>

lemma searchCells_Cons:
  "searchCells (b # bs) = (if b then [] else [0]) @ map Suc (searchCells bs)"
proof -
  have "[0..<length (b # bs)] = 0 # map Suc [0..<length bs]"
    by (simp add: upt_conv_Cons map_Suc_upt del: upt_Suc)
  then show ?thesis
    by (simp add: searchCells_def filter_map comp_def del: upt_Suc)
qed

lemma searchCells_Nil: "searchCells [] = []"
  by (simp add: searchCells_def)

lemmas cell_eval = extrap_cell_def extrap_value_def
  neighborCellId_def get_at_def set_at_def py_take_def active_ids_def fancy_get_def norm_index_def
  rbind_def adjacent_data_def dists_def fl_exact

lemma pass3_1: "extrap_pass py_exact opts0 mesh3 st3 = Inr st3a"
  by (simp add: extrap_pass_def searchCells_Cons searchCells_Nil cell_eval mesh3_def st3_def st3a_def opts0_def)

lemma pass3_2: "extrap_pass py_exact opts0 mesh3 st3a = Inr st3b"
  by (simp add: extrap_pass_def searchCells_Cons searchCells_Nil cell_eval mesh3_def st3a_def st3b_def opts0_def)

lemma pass3_3: "extrap_pass py_exact opts0 mesh3 st3b = Inr st3b"
  by (simp add: extrap_pass_def searchCells_Cons searchCells_Nil cell_eval mesh3_def st3b_def opts0_def)



subsection \<open>Which cells a pass activates\<close>







subsection \<open>A pass without progress\<close>

lemma extrap_loop_fixpoint:
  assumes "extrap_pass py opts m s = Inr s" and "count_nonzero (keepCellMask s) \<noteq> nCells m"
  shows "extrap_loop py opts m s = None"
proof (rule ccontr)
  assume "extrap_loop py opts m s \<noteq> None"
  then obtain r where r: "extrap_loop py opts m s = Some r" by auto
  have "\<not> (py = py \<and> opts = opts \<and> m = m \<and> s = s)"
  proof (rule extrap_loop.raw_induct
      [where P = "\<lambda>py' opts' m' s' r'. \<not> (py' = py \<and> opts' = opts \<and> m' = m \<and> s' = s)",
       OF _ r])
    fix loop :: "platform \<Rightarrow> options \<Rightarrow> mesh \<Rightarrow> pstate \<Rightarrow> (error + pstate) option"
    fix py' opts' m' s' r'
    assume IH: "\<And>p a b c y. loop p a b c = Some y
                  \<Longrightarrow> \<not> (p = py \<and> a = opts \<and> b = m \<and> c = s)"
      and body: "(if count_nonzero (keepCellMask s') \<noteq> nCells m'
                  then case extrap_pass py' opts' m' s' of Inl e \<Rightarrow> Some (Inl e)
                       | Inr st' \<Rightarrow> loop py' opts' m' st'
                  else Some (Inr s')) = Some r'"
    show "\<not> (py' = py \<and> opts' = opts \<and> m' = m \<and> s' = s)"
    proof
      assume "py' = py \<and> opts' = opts \<and> m' = m \<and> s' = s"
      with body assms have "loop py opts m s = Some r'" by simp
      with IH show False by blast
    qed
  qed
  then show False by simp
qed

lemma extrap_pass_stuck:
  assumes "extrap_pass py opts m st = Inr st'"
    and "length (field st) = length (keepCellMaskNew st)"
    and "keepCellMaskNew st' = keepCellMaskNew st"
  shows "st' = st\<lparr>keepCellMask := keepCellMaskNew st\<rparr>"
proof -
  note snap = extrap_pass_snapshot[OF assms(1,2)]
  have "field st' = field st"
  proof (rule nth_equalityI)
    show "length (field st') = length (field st)" using snap by simp
  next
    fix i assume "i < length (field st')"
    with snap assms(2) have i: "i < length (keepCellMaskNew st)" by simp
    with snap have "if keepCellMaskNew st ! i then field st' ! i = field st ! i \<and> keepCellMaskNew st' ! i
            else (case extrap_value py opts m (keepCellMaskNew st) (field st) i of
                    Inl e \<Rightarrow> False
                  | Inr None \<Rightarrow> field st' ! i = field st ! i \<and> \<not> keepCellMaskNew st' ! i
                  | Inr (Some v) \<Rightarrow> field st' ! i = v \<and> keepCellMaskNew st' ! i)" by blast
    then show "field st' ! i = field st ! i"
      using assms(3) by (auto split: if_splits sum.splits option.splits)
  qed
  with snap assms(3) show ?thesis by (intro pstate.equality) simp_all
qed

lemma extrap_loop_no_progress:
  assumes "extrap_pass py opts m st = Inr st'"
    and "length (field st) = length (keepCellMaskNew st)"
    and "keepCellMaskNew st' = keepCellMaskNew st"
    and "count_nonzero (keepCellMaskNew st') \<noteq> nCells m"
  shows "extrap_loop py opts m st' = None"
proof -
  have st': "st' = st\<lparr>keepCellMask := keepCellMaskNew st\<rparr>"
    using assms(1-3) by (rule extrap_pass_stuck)
  have "extrap_pass py opts m st' = extrap_pass py opts m st"
    by (subst st') (simp add: extrap_pass_def)
  with assms(1) have fp: "extrap_pass py opts m st' = Inr st'" by simp
  have "keepCellMask st' = keepCellMaskNew st'" by (subst (1 2) st') simp
  with assms(4) have "count_nonzero (keepCellMask st') \<noteq> nCells m" by simp
  with fp show ?thesis by (rule extrap_loop_fixpoint)
qed

text \<open>
  C2, as the code has it. The loop has no check for a pass without progress. When a pass
  completes, has activated no cell, and the number of active cells still differs from
  \<open>nCells\<close>, the loop never ends from the state after that pass, and so it never ends
  from the state before it either when the loop condition holds there: nothing is reported.
  The values and the masks have one entry per cell.
\<close>

theorem extrap_loop_no_progress_never_ends:
  assumes "extrap_pass py opts m st = Inr st'"
    and "length (field st) = length (keepCellMaskNew st)"
    and "keepCellMaskNew st' = keepCellMaskNew st"
    and "count_nonzero (keepCellMaskNew st') \<noteq> nCells m"
  shows "extrap_loop py opts m st' = None
       \<and> (count_nonzero (keepCellMask st) \<noteq> nCells m \<longrightarrow> extrap_loop py opts m st = None)"
proof -
  have after: "extrap_loop py opts m st' = None"
    using assms by (rule extrap_loop_no_progress)
  have "extrap_loop py opts m st = None" if "count_nonzero (keepCellMask st) \<noteq> nCells m"
    using that assms(1) after by (subst extrap_loop.simps) simp
  with after show ?thesis by blast
qed

theorem extrap_loop_no_progress_never_ends_witness:
  "extrap_pass py_exact opts0 mesh3 st3a = Inr st3b
   \<and> length (field st3a) = length (keepCellMaskNew st3a)
   \<and> keepCellMaskNew st3b = keepCellMaskNew st3a
   \<and> count_nonzero (keepCellMaskNew st3b) \<noteq> nCells mesh3
   \<and> count_nonzero (keepCellMask st3a) \<noteq> nCells mesh3
   \<and> extrap_loop py_exact opts0 mesh3 st3b = None
   \<and> extrap_loop py_exact opts0 mesh3 st3a = None"
proof -
  have h: "length (field st3a) = length (keepCellMaskNew st3a)"
    "keepCellMaskNew st3b = keepCellMaskNew st3a"
    "count_nonzero (keepCellMaskNew st3b) \<noteq> nCells mesh3"
    "count_nonzero (keepCellMask st3a) \<noteq> nCells mesh3"
    by (simp_all add: st3a_def st3b_def mesh3_def count_nonzero_def)
  from extrap_loop_no_progress_never_ends[OF pass3_2 h(1,2,3)] pass3_2 h
  show ?thesis by simp
qed

text \<open>
  C2, as stated, fails: on three cells of which the last has no neighbour, the loop fills
  cell 1 in the first pass and then runs for ever; no error is reported.
\<close>

theorem extrap_loop_isolated_cell_counterexample: "extrap_loop py_exact opts0 mesh3 st3 = None"
proof -
  have c0: "count_nonzero (keepCellMask st3) \<noteq> nCells mesh3"
    by (simp add: st3_def mesh3_def count_nonzero_def)
  have ca: "count_nonzero (keepCellMask st3a) \<noteq> nCells mesh3"
    by (simp add: st3a_def mesh3_def count_nonzero_def)
  have cb: "count_nonzero (keepCellMask st3b) \<noteq> nCells mesh3"
    by (simp add: st3b_def mesh3_def count_nonzero_def)
  have "extrap_loop py_exact opts0 mesh3 st3b = None"
    using pass3_3 cb by (rule extrap_loop_fixpoint)
  then have "extrap_loop py_exact opts0 mesh3 st3a = None"
    using ca pass3_2 by (subst extrap_loop.simps) simp
  then show ?thesis
    using c0 pass3_1 by (subst extrap_loop.simps) simp
qed

subsection \<open>The thickness\<close>

text \<open>
  C8. When the processed variable is the thickness, the extrapolation phase returns at
  once with the values and the masks it was given: no cell is filled.
\<close>

theorem thickness_skips_extrapolation:
  "extrapolate py (opts\<lparr>var_name := ''thickness''\<rparr>) m st = Some (Inr st)"
  by (simp add: extrapolate_def)

subsection \<open>The stored id 0\<close>









section \<open>Smoothing\<close>

text \<open>
  C9. With zero requested iterations the smoothing phase returns the state it was given,
  for every variable, mesh, field and masks: no value changes and no error is raised.
\<close>

theorem zero_iterations_is_identity:
  "smoothing py (opts\<lparr>smooth_iter_num := 0\<rparr>) m st = Inr st"
  by (simp add: smoothing_def)

end
